theory Spec2Isabelle
  imports Main
begin

section \<open>The rule no-array-fill-with-reference-type\<close>

text \<open>
  A shallow embedding of \<^verbatim>\<open>src/rules/no-array-fill-with-reference-type.js\<close>: the
  classifier \<^verbatim>\<open>isReferenceType\<close> with its helper \<^verbatim>\<open>isIdentifierReferenceType\<close>, the
  label derivation \<^verbatim>\<open>getType\<close> and \<^verbatim>\<open>getNewExpressionType\<close>, and the verdict that the
  \<^verbatim>\<open>CallExpression\<close> handler derives from both.
\<close>

subsection \<open>The tree\<close>

text \<open>
  An ESTree node is an object with a \<^verbatim>\<open>type\<close> tag. Every node carries its \<^verbatim>\<open>range\<close>, which
  stands for the identity of the object: two identifiers of the same name at different
  places are different nodes, and the scope manager may answer differently for them.
  Only the fields that the rule reads are kept:
  \<^item> \<^verbatim>\<open>Literal\<close>: \<^verbatim>\<open>regex\<close> (pattern and flags), present on regular expression literals only;
  \<^item> \<^verbatim>\<open>TemplateLiteral\<close>: its interpolated \<^verbatim>\<open>expressions\<close>;
  \<^item> \<^verbatim>\<open>Identifier\<close>: \<^verbatim>\<open>name\<close>;
  \<^item> \<^verbatim>\<open>NewExpression\<close>, \<^verbatim>\<open>CallExpression\<close>: \<^verbatim>\<open>callee\<close> and \<^verbatim>\<open>arguments\<close>;
  \<^item> \<^verbatim>\<open>VariableDeclarator\<close>: \<^verbatim>\<open>parent.kind\<close> (the kind of the enclosing
    \<^verbatim>\<open>VariableDeclaration\<close>: var, let, const, ...) and \<^verbatim>\<open>init\<close>, which is null when the
    declarator has no initializer;
  \<^item> \<^verbatim>\<open>Other t\<close>: a node of any other type \<^verbatim>\<open>t\<close> (member expression, import specifier,
    catch clause, ...).
\<close>

type_synonym regex = "string \<times> string"

datatype node = Node "nat \<times> nat" shape
and shape =
    Literal "regex option"
  | TemplateLiteral "node list"
  | Identifier string
  | ObjectExpression
  | ArrayExpression
  | NewExpression node "node list"
  | CallExpression node "node list"
  | FunctionExpression
  | ArrowFunctionExpression
  | FunctionDeclaration
  | ClassExpression
  | ClassDeclaration
  | VariableDeclarator string "node option"
  | Other string

fun shape_of :: "node \<Rightarrow> shape" where
  "shape_of (Node r s) = s"

text \<open>\<^verbatim>\<open>node.name\<close>: defined on identifiers only.\<close>

fun name_of :: "node \<Rightarrow> string option" where
  "name_of (Node r (Identifier nm)) = Some nm"
| "name_of (Node r s) = None"

text \<open>
  \<^verbatim>\<open>node.callee.name\<close> of a call or a construction: the name of the callee when the
  callee is an identifier, undefined for any other callee (a member path, a class
  expression, a call).
\<close>

fun callee_name :: "node \<Rightarrow> string option" where
  "callee_name (Node r (NewExpression callee args)) = name_of callee"
| "callee_name (Node r (CallExpression callee args)) = name_of callee"
| "callee_name (Node r s) = None"

subsection \<open>Scopes\<close>

text \<open>
  What \<^verbatim>\<open>context.sourceCode.getScope(node)\<close> returns: a scope with its own list of
  variables; a variable has a name and a list of definitions \<^verbatim>\<open>defs\<close>; a definition has
  the node that declares the variable. The scope manager always gives \<^verbatim>\<open>variables\<close> as
  an array, so the test \<^verbatim>\<open>!variables\<close> of the source is never true.
\<close>

record scope_definition =
  node :: "node option"

record variable =
  name :: string
  defs :: "scope_definition list"

record scope =
  variables :: "variable list"

subsection \<open>Rule context and options\<close>

text \<open>
  The options object of the rule. A key may be absent; the schema admits booleans only.
\<close>

record options =
  canFillWithFunction :: "bool option"
  canFillWithRegexp :: "bool option"

record source_code =
  getScope :: "node \<Rightarrow> scope"
  getText :: "node \<Rightarrow> string"

text \<open>\<^verbatim>\<open>context.options\<close> is the array of the options given by the user.\<close>

record rule_context =
  options :: "options list"
  sourceCode :: source_code

definition DEFAULTS :: options where
  "DEFAULTS = \<lparr>canFillWithFunction = Some True, canFillWithRegexp = Some True\<rparr>"

text \<open>\<^verbatim>\<open>context.options[0]\<close>: undefined on an empty array.\<close>

fun options0 :: "rule_context \<Rightarrow> options option" where
  "options0 ctx = (case options ctx of [] \<Rightarrow> None | x # xs \<Rightarrow> Some x)"

text \<open>
  The object spread \<^verbatim>\<open>{...a, ...b}\<close>: the keys of \<^verbatim>\<open>b\<close> override those of \<^verbatim>\<open>a\<close>;
  spreading undefined adds nothing.
\<close>

fun override :: "bool option \<Rightarrow> bool option \<Rightarrow> bool option" where
  "override a None = a"
| "override a (Some b) = Some b"

fun spread :: "options \<Rightarrow> options option \<Rightarrow> options" where
  "spread a None = a"
| "spread a (Some b) =
     \<lparr>canFillWithFunction = override (canFillWithFunction a) (canFillWithFunction b),
      canFillWithRegexp = override (canFillWithRegexp a) (canFillWithRegexp b)\<rparr>"

text \<open>Truthiness of an option value.\<close>

fun truthy :: "bool option \<Rightarrow> bool" where
  "truthy (Some b) = b"
| "truthy None = False"

subsection \<open>Helpers of \<^verbatim>\<open>./ast/index.js\<close>\<close>

text \<open>
  Modelled from the spec: \<^verbatim>\<open>isFunction\<close> and \<^verbatim>\<open>isRegexLiteral\<close> are imported from
  \<^verbatim>\<open>./ast/index.js\<close>, which is not among the sources. The spec names the function
  literal and the arrow function literal as the shapes governed by
  \<^verbatim>\<open>canFillWithFunction\<close>; the test
  \<^verbatim>\<open>function foo() {}; new Array(7).fill(foo);\<close> is valid, and the classifier is called
  there on the function declaration, so declarations are functions as well. A regex
  literal is a literal that carries the regex flag.
\<close>

fun isFunction :: "node \<Rightarrow> bool" where
  "isFunction (Node r FunctionDeclaration) = True"
| "isFunction (Node r FunctionExpression) = True"
| "isFunction (Node r ArrowFunctionExpression) = True"
| "isFunction (Node r s) = False"

fun isRegexLiteral :: "node \<Rightarrow> bool" where
  "isRegexLiteral (Node r (Literal (Some rx))) = True"
| "isRegexLiteral (Node r s) = False"

subsection \<open>The classifier\<close>

text \<open>
  A call can throw: \<^verbatim>\<open>TypeError\<close> is the error of reading a property of undefined.
  The two functions call each other without a bound, so the model counts stack frames:
  every call takes one, and with none left the result is \<^verbatim>\<open>None\<close> (the call has not
  returned).
\<close>

datatype error = TypeError

type_synonym 'a result = "(error + 'a) option"

text \<open>
  The two tests on the type and the callee:
  \<^verbatim>\<open>node.type === 'NewExpression' && node.callee.name === 'RegExp'\<close> and
  \<^verbatim>\<open>node.type === 'CallExpression' && node.callee.name === 'Symbol'\<close>.
\<close>

fun isNewRegexp :: "node \<Rightarrow> bool" where
  "isNewRegexp (Node r (NewExpression callee args)) =
     (callee_name (Node r (NewExpression callee args)) = Some ''RegExp'')"
| "isNewRegexp (Node r s) = False"

fun isSymbolCall :: "node \<Rightarrow> bool" where
  "isSymbolCall (Node r (CallExpression callee args)) =
     (callee_name (Node r (CallExpression callee args)) = Some ''Symbol'')"
| "isSymbolCall (Node r s) = False"

fun isReferenceType :: "nat \<Rightarrow> rule_context \<Rightarrow> node option \<Rightarrow> bool result"
and isIdentifierReferenceType :: "nat \<Rightarrow> rule_context \<Rightarrow> node \<Rightarrow> bool result" where
  "isReferenceType 0 ctx nd = None"
| "isReferenceType (Suc k) ctx None = Some (Inr False)"
| "isReferenceType (Suc k) ctx (Some nd) =
     (let opts = spread DEFAULTS (options0 ctx) in
      case shape_of nd of
        Literal rx \<Rightarrow>
          if \<not> truthy (canFillWithRegexp opts) \<and> isRegexLiteral nd then Some (Inr True)
          else Some (Inr False)
      | TemplateLiteral es \<Rightarrow> Some (Inr False)
      | Identifier nm \<Rightarrow> isIdentifierReferenceType k ctx nd
      | _ \<Rightarrow>
          if isSymbolCall nd \<and> variables (getScope (sourceCode ctx) nd) = []
          then Some (Inr False)
          else if truthy (canFillWithFunction opts) \<and> isFunction nd then Some (Inr False)
          else if truthy (canFillWithRegexp opts) \<and> isNewRegexp nd then Some (Inr False)
          else Some (Inr True))"
| "isIdentifierReferenceType 0 ctx nd = None"
| "isIdentifierReferenceType (Suc k) ctx nd =
     (case find (\<lambda>v. Some (name v) = name_of nd) (variables (getScope (sourceCode ctx) nd)) of
        None \<Rightarrow> Some (Inr False)
      | Some v \<Rightarrow>
          (case defs v of
             [] \<Rightarrow> Some (Inl TypeError)
           | d # ds \<Rightarrow>
               (case node d of
                  None \<Rightarrow> Some (Inr False)
                | Some definitionNode \<Rightarrow>
                    (case shape_of definitionNode of
                       VariableDeclarator kind init \<Rightarrow>
                         if kind = ''let'' then Some (Inr False)
                         else isReferenceType k ctx init
                     | _ \<Rightarrow> isReferenceType k ctx (Some definitionNode)))))"

subsection \<open>The type label\<close>

text \<open>
  Strings are lists of code units below 256. The white space of \<^verbatim>\<open>\\s\<close> in that range
  is tab, line feed, vertical tab, form feed, carriage return, space and the no-break
  space.
\<close>

definition isSpace :: "char \<Rightarrow> bool" where
  "isSpace c = (c \<in> set [CHR 0x09, CHR 0x0A, CHR 0x0B, CHR 0x0C, CHR 0x0D, CHR 0x20, CHR 0xA0])"

text \<open>\<^verbatim>\<open>text.split('\\n')[0]\<close>: the text before the first line feed.\<close>

definition firstLine :: "string \<Rightarrow> string" where
  "firstLine text = takeWhile (\<lambda>c. c \<noteq> CHR 0x0A) text"

text \<open>
  \<^verbatim>\<open>text.match(/\\S+/)\<close>: the first longest run of characters that are not white space,
  null when there is none.
\<close>

definition matchNonSpace :: "string \<Rightarrow> string option" where
  "matchNonSpace text =
     (case dropWhile isSpace text of
        [] \<Rightarrow> None
      | c # cs \<Rightarrow> Some (takeWhile (\<lambda>x. \<not> isSpace x) (c # cs)))"

text \<open>
  Reading \<^verbatim>\<open>fillArgument.callee.name\<close> on a node without callee throws; \<^verbatim>\<open>getType\<close> calls
  the function on constructions only. A name is truthy when it is not the empty string.
\<close>

fun getNewExpressionType :: "rule_context \<Rightarrow> node \<Rightarrow> error + string" where
  "getNewExpressionType ctx (Node r (NewExpression callee args)) =
     (case name_of callee of
        Some (c # cs) \<Rightarrow> Inr (''new '' @ (c # cs) @ ''()'')
      | _ \<Rightarrow>
          (case matchNonSpace (firstLine (getText (sourceCode ctx) callee)) of
             Some m \<Rightarrow> Inr (''new '' @ take 32 m)
           | None \<Rightarrow> Inr ''new ()''))"
| "getNewExpressionType ctx (Node r s) = Inl TypeError"

fun getType :: "rule_context \<Rightarrow> node \<Rightarrow> error + string" where
  "getType ctx fillArgument =
     (case shape_of fillArgument of
        ObjectExpression \<Rightarrow> Inr ''Object''
      | ArrayExpression \<Rightarrow> Inr ''Array''
      | NewExpression callee args \<Rightarrow> getNewExpressionType ctx fillArgument
      | FunctionExpression \<Rightarrow> Inr ''Function''
      | ArrowFunctionExpression \<Rightarrow> Inr ''Function''
      | Literal (Some rx) \<Rightarrow> Inr ''RegExp''
      | Identifier nm \<Rightarrow> Inr (''variable ('' @ nm @ '')'')
      | _ \<Rightarrow> Inr [])"

subsection \<open>The verdict\<close>

text \<open>
  What the \<^verbatim>\<open>CallExpression\<close> handler makes of the fill argument: nothing is reported
  when \<^verbatim>\<open>isReferenceType\<close> is false; otherwise the report carries the type of
  \<^verbatim>\<open>getType\<close>, and the message has no parenthetical when that type is the empty string.
  \<^verbatim>\<open>getType\<close> reads \<^verbatim>\<open>fillArgument.type\<close>, which throws on an absent argument.
\<close>

record verdict =
  referenceType :: bool
  typeLabel :: "string option"

fun classify :: "nat \<Rightarrow> rule_context \<Rightarrow> node option \<Rightarrow> verdict result" where
  "classify fuel ctx fillArgument =
     (case isReferenceType fuel ctx fillArgument of
        None \<Rightarrow> None
      | Some (Inl e) \<Rightarrow> Some (Inl e)
      | Some (Inr False) \<Rightarrow> Some (Inr \<lparr>referenceType = False, typeLabel = None\<rparr>)
      | Some (Inr True) \<Rightarrow>
          (case fillArgument of
             None \<Rightarrow> Some (Inl TypeError)
           | Some nd \<Rightarrow>
               (case getType ctx nd of
                  Inl e \<Rightarrow> Some (Inl e)
                | Inr t \<Rightarrow>
                    Some (Inr \<lparr>referenceType = True,
                               typeLabel = (if t = [] then None else Some t)\<rparr>))))"

subsection \<open>Identifier indirection\<close>

text \<open>
  The node on which the classifier calls itself next: for an identifier whose variable is
  in the scope of the identifier, with a first definition that has a node, the
  initializer of a declarator that is not a \<^verbatim>\<open>let\<close>, or the definition node itself when
  it is not a declarator. There is no next node otherwise.
\<close>

fun target :: "rule_context \<Rightarrow> node option \<Rightarrow> node option option" where
  "target ctx None = None"
| "target ctx (Some nd) =
     (case shape_of nd of
        Identifier nm \<Rightarrow>
          (case find (\<lambda>v. Some (name v) = name_of nd) (variables (getScope (sourceCode ctx) nd)) of
             None \<Rightarrow> None
           | Some v \<Rightarrow>
               (case defs v of
                  [] \<Rightarrow> None
                | d # ds \<Rightarrow>
                    (case node d of
                       None \<Rightarrow> None
                     | Some definitionNode \<Rightarrow>
                         (case shape_of definitionNode of
                            VariableDeclarator kind init \<Rightarrow>
                              if kind = ''let'' then None else Some init
                          | _ \<Rightarrow> Some (Some definitionNode)))))
      | _ \<Rightarrow> None)"

text \<open>
  \<open>resolves ctx nd d t\<close>: starting at \<open>nd\<close>, the classifier follows \<open>d\<close> identifiers and
  arrives at \<open>t\<close>, where it calls itself no further.
\<close>

inductive resolves :: "rule_context \<Rightarrow> node option \<Rightarrow> nat \<Rightarrow> node option \<Rightarrow> bool" where
  stop: "target ctx nd = None \<Longrightarrow> resolves ctx nd 0 nd"
| follow: "target ctx nd = Some nd' \<Longrightarrow> resolves ctx nd' d t \<Longrightarrow> resolves ctx nd (Suc d) t"

text \<open>The shapes whose verdict the options govern.\<close>

fun governed :: "node option \<Rightarrow> bool" where
  "governed None = False"
| "governed (Some nd) = (isRegexLiteral nd \<or> isNewRegexp nd \<or> isFunction nd)"

subsection \<open>Example programs\<close>

text \<open>
  A variable with one definition, and a context in which every node lies in one scope
  with the given variables (the module scope of a file without functions or blocks).
\<close>

definition declared :: "string \<Rightarrow> node \<Rightarrow> variable" where
  "declared nm definitionNode = \<lparr>name = nm, defs = [\<lparr>node = Some definitionNode\<rparr>]\<rparr>"

definition program :: "options list \<Rightarrow> variable list \<Rightarrow> rule_context" where
  "program os vs =
     \<lparr>options = os,
      sourceCode = \<lparr>getScope = (\<lambda>nd. \<lparr>variables = vs\<rparr>), getText = (\<lambda>nd. [])\<rparr>\<rparr>"

text \<open>\<^verbatim>\<open>const p = {}; new Array(3).fill(p);\<close> with const, let or var as the kind.\<close>

definition object_binding :: "string \<Rightarrow> options list \<Rightarrow> rule_context" where
  "object_binding kind os =
     program os [declared ''p'' (Node (6, 12) (VariableDeclarator kind (Some (Node (10, 12) ObjectExpression))))]"

definition object_binding_argument :: node where
  "object_binding_argument = Node (32, 33) (Identifier ''p'')"

text \<open>\<^verbatim>\<open>const a = a; new Array(3).fill(a);\<close>\<close>

definition self_binding :: rule_context where
  "self_binding =
     program [] [declared ''a'' (Node (6, 11) (VariableDeclarator ''const'' (Some (Node (10, 11) (Identifier ''a'')))))]"

definition self_binding_argument :: node where
  "self_binding_argument = Node (31, 32) (Identifier ''a'')"

text \<open>\<^verbatim>\<open>const foo = 1; new Array(3).fill(Symbol('foo'));\<close>\<close>

definition symbol_call :: node where
  "symbol_call =
     Node (33, 46) (CallExpression (Node (33, 39) (Identifier ''Symbol'')) [Node (40, 45) (Literal None)])"

definition symbol_after_binding :: rule_context where
  "symbol_after_binding =
     program [] [declared ''foo'' (Node (6, 13) (VariableDeclarator ''const'' (Some (Node (12, 13) (Literal None)))))]"

text \<open>
  \<^verbatim>\<open>function f() { return new Array(3).fill(arguments); }\<close>: the scope of a function
  has the variable \<^verbatim>\<open>arguments\<close>, which has no definition, and then the parameters.
\<close>

definition implicit_arguments :: "variable list \<Rightarrow> rule_context" where
  "implicit_arguments params = program [] (\<lparr>name = ''arguments'', defs = []\<rparr> # params)"

definition arguments_argument :: node where
  "arguments_argument = Node (40, 49) (Identifier ''arguments'')"

text \<open>\<^verbatim>\<open>const p = /pattern/; new Array(3).fill(p);\<close>\<close>

definition regex_binding :: "options list \<Rightarrow> rule_context" where
  "regex_binding os =
     program os [declared ''p'' (Node (6, 19) (VariableDeclarator ''const'' (Some (Node (10, 19) (Literal (Some (''pattern'', '''')))))))]"

definition regex_binding_argument :: node where
  "regex_binding_argument = Node (39, 40) (Identifier ''p'')"

text \<open>\<^verbatim>\<open>const b = {}; const a = b; new Array(3).fill(a);\<close>\<close>

definition binding_chain :: "options list \<Rightarrow> rule_context" where
  "binding_chain os =
     program os
       [declared ''b'' (Node (6, 12) (VariableDeclarator ''const'' (Some (Node (10, 12) ObjectExpression)))),
        declared ''a'' (Node (20, 25) (VariableDeclarator ''const'' (Some (Node (24, 25) (Identifier ''b'')))))]"

definition binding_chain_argument :: node where
  "binding_chain_argument = Node (45, 46) (Identifier ''a'')"

text \<open>\<^verbatim>\<open>function f(x) { return new Array(3).fill(arguments); }\<close>\<close>

definition arguments_in_function :: node where
  "arguments_in_function = Node (41, 50) (Identifier ''arguments'')"

definition function_with_parameter :: rule_context where
  "function_with_parameter = implicit_arguments [declared ''x'' (Node (0, 54) FunctionDeclaration)]"

text \<open>
  \<^verbatim>\<open>new Array(3).fill(undefined);\<close> in a script: the global scope holds the built-in
  globals, \<^verbatim>\<open>undefined\<close> among them, and none of them has a definition.
\<close>

definition script_globals :: rule_context where
  "script_globals = program [] [\<lparr>name = ''Array'', defs = []\<rparr>, \<lparr>name = ''undefined'', defs = []\<rparr>]"

definition undefined_argument :: node where
  "undefined_argument = Node (18, 27) (Identifier ''undefined'')"

section \<open>Properties\<close>

subsection \<open>Stack frames\<close>

text \<open>A call that returns with some number of frames returns the same with more.\<close>

lemmas examples = declared_def program_def object_binding_def object_binding_argument_def
  self_binding_def self_binding_argument_def symbol_call_def symbol_after_binding_def
  implicit_arguments_def arguments_argument_def regex_binding_def regex_binding_argument_def
  binding_chain_def binding_chain_argument_def arguments_in_function_def
  function_with_parameter_def script_globals_def undefined_argument_def

lemma isReferenceType_mono:
  "(\<forall>nd r. isReferenceType k ctx nd = Some r \<longrightarrow> isReferenceType (Suc k) ctx nd = Some r) \<and>
   (\<forall>nd r. isIdentifierReferenceType k ctx nd = Some r \<longrightarrow> isIdentifierReferenceType (Suc k) ctx nd = Some r)"
proof (induction k)
  case 0
  show ?case by simp
next
  case (Suc k)
  have a: "isReferenceType (Suc (Suc k)) ctx nd = Some r" if "isReferenceType (Suc k) ctx nd = Some r" for nd r
  proof (cases nd)
    case None
    with that show ?thesis by simp
  next
    case (Some n)
    obtain rg s where n: "n = Node rg s" by (cases n)
    show ?thesis
    proof (cases "\<exists>nm. s = Identifier nm")
      case True
      then obtain nm where s: "s = Identifier nm" by blast
      from that Some n s have "isIdentifierReferenceType k ctx n = Some r" by simp
      with Suc have "isIdentifierReferenceType (Suc k) ctx n = Some r" by blast
      with Some n s show ?thesis by (simp del: isIdentifierReferenceType.simps)
    next
      case False
      with that Some n show ?thesis by (cases s) (simp_all add: Let_def)
    qed
  qed
  have b: "isIdentifierReferenceType (Suc (Suc k)) ctx nd = Some r" if "isIdentifierReferenceType (Suc k) ctx nd = Some r" for nd r
  proof -
    from Suc have ih: "\<And>m x. isReferenceType k ctx m = Some x \<Longrightarrow> isReferenceType (Suc k) ctx m = Some x"
      by blast
    show ?thesis using that
      by (auto simp del: isReferenceType.simps split: option.splits list.splits shape.splits if_splits intro: ih)
  qed
  from a b show ?case by blast
qed

lemma isReferenceType_more_fuel:
  "isReferenceType k ctx nd = Some r \<Longrightarrow> k \<le> k' \<Longrightarrow> isReferenceType k' ctx nd = Some r"
proof (induction k' )
  case 0
  then show ?case by simp
next
  case (Suc k')
  show ?case
  proof (cases "k = Suc k'")
    case True
    with Suc show ?thesis by simp
  next
    case False
    with Suc have "isReferenceType k' ctx nd = Some r" by simp
    then show ?thesis using isReferenceType_mono by blast
  qed
qed

subsection \<open>One step of identifier indirection\<close>

lemma isReferenceType_stop:
  assumes "target ctx nd = None"
  shows "\<exists>res. \<forall>k. isReferenceType (Suc (Suc k)) ctx nd = Some res"
proof (cases nd)
  case None
  then show ?thesis by simp
next
  case (Some n)
  obtain rg s where n: "n = Node rg s" by (cases n)
  show ?thesis
  proof (cases "\<exists>nm. s = Identifier nm")
    case True
    then obtain nm where s: "s = Identifier nm" by blast
    from assms Some n s show ?thesis
      by (auto split: option.splits list.splits shape.splits if_splits)
  next
    case False
    with Some n show ?thesis by (cases s) (simp_all add: Let_def)
  qed
qed

lemma isReferenceType_follow:
  assumes "target ctx nd = Some nd'"
  shows "isReferenceType (Suc (Suc k)) ctx nd = isReferenceType k ctx nd'"
proof (cases nd)
  case None
  with assms show ?thesis by simp
next
  case (Some n)
  obtain rg s where n: "n = Node rg s" by (cases n)
  show ?thesis
  proof (cases "\<exists>nm. s = Identifier nm")
    case True
    then obtain nm where s: "s = Identifier nm" by blast
    from assms Some n s show ?thesis
      by (auto simp del: isReferenceType.simps simp add: isReferenceType.simps(3) split: option.splits list.splits shape.splits if_splits)
  next
    case False
    with assms Some n show ?thesis by (cases s) simp_all
  qed
qed

lemma target_sourceCode:
  "sourceCode c1 = sourceCode c2 \<Longrightarrow> target c1 nd = target c2 nd"
  by (cases nd) (auto split: shape.splits option.splits list.splits)

lemma getType_sourceCode:
  "sourceCode c1 = sourceCode c2 \<Longrightarrow> getType c1 nd = getType c2 nd"
proof -
  assume a: "sourceCode c1 = sourceCode c2"
  obtain rg s where n: "nd = Node rg s" by (cases nd)
  show ?thesis
  proof (cases "\<exists>callee args. s = NewExpression callee args")
    case True
    with a n show ?thesis by (auto split: option.splits list.splits)
  next
    case False
    with n show ?thesis by (cases s) simp_all
  qed
qed

lemma isReferenceType_one_frame:
  assumes "target ctx nd = Some nd'"
  shows "isReferenceType (Suc 0) ctx nd = None"
proof (cases nd)
  case None
  with assms show ?thesis by simp
next
  case (Some n)
  obtain rg s where n: "n = Node rg s" by (cases n)
  from assms Some n show ?thesis by (cases s) simp_all
qed

lemma binding_chain_resolves:
  "resolves (binding_chain os) (Some binding_chain_argument) 2 (Some (Node (10, 12) ObjectExpression))"
proof -
  have "resolves (binding_chain os) (Some (Node (10, 12) ObjectExpression)) 0 (Some (Node (10, 12) ObjectExpression))"
    by (rule resolves.stop) simp
  then have "resolves (binding_chain os) (Some (Node (24, 25) (Identifier ''b''))) (Suc 0) (Some (Node (10, 12) ObjectExpression))"
    by (rule resolves.follow [rotated]) (simp add: examples)
  then have "resolves (binding_chain os) (Some binding_chain_argument) (Suc (Suc 0)) (Some (Node (10, 12) ObjectExpression))"
    by (rule resolves.follow [rotated]) (simp add: examples)
  then show ?thesis
    by (simp add: numeral_2_eq_2)
qed

subsection \<open>Bindings declared with let, var and const\<close>

text \<open>
  C1, as amended: an identifier whose variable is found in its scope, with a first
  definition that is a declarator of a \<^verbatim>\<open>let\<close> declaration, is a value type whatever the
  initializer is, as soon as the two calls have their frames. The source tests the kind
  against \<^verbatim>\<open>let\<close> alone.
\<close>

theorem let_binding_is_value_type:
  assumes "find (\<lambda>v. name v = nm) (variables (getScope (sourceCode ctx) (Node r (Identifier nm)))) = Some v"
    and "defs v = d # ds"
    and "node d = Some (Node r' (VariableDeclarator ''let'' init))"
  shows "isReferenceType (Suc (Suc k)) ctx (Some (Node r (Identifier nm))) = Some (Inr False) \<and>
         classify (Suc (Suc k)) ctx (Some (Node r (Identifier nm))) =
           Some (Inr \<lparr>referenceType = False, typeLabel = None\<rparr>)"
  using assms by simp

text \<open>
  Witness of C1: \<^verbatim>\<open>let p = {}; new Array(3).fill(p);\<close> is not flagged.
\<close>

theorem let_binding_is_value_type_witness:
  "isReferenceType 2 (object_binding ''let'' []) (Some object_binding_argument) = Some (Inr False) \<and>
   classify 2 (object_binding ''let'' []) (Some object_binding_argument) =
     Some (Inr \<lparr>referenceType = False, typeLabel = None\<rparr>)"
  using let_binding_is_value_type [of "''p''" "object_binding ''let'' []" "(32, 33)"
      "declared ''p'' (Node (6, 12) (VariableDeclarator ''let'' (Some (Node (10, 12) ObjectExpression))))"
      "\<lparr>node = Some (Node (6, 12) (VariableDeclarator ''let'' (Some (Node (10, 12) ObjectExpression))))\<rparr>"
      "[]" "(6, 12)" "Some (Node (10, 12) ObjectExpression)" 0]
  by (simp add: examples numeral_2_eq_2)

text \<open>
  Counterexample to C1 as stated: a \<^verbatim>\<open>var\<close> binding may be assigned again after its
  initialization, and \<^verbatim>\<open>var p = {}; new Array(3).fill(p);\<close> is classified by its
  initializer, a reference type; with no number of frames is the result a value type.
\<close>

theorem var_binding_counterexample:
  "isReferenceType 3 (object_binding ''var'' []) (Some object_binding_argument) = Some (Inr True) \<and>
   (\<forall>fuel. isReferenceType fuel (object_binding ''var'' []) (Some object_binding_argument) \<noteq> Some (Inr False))"
proof -
  have t: "isReferenceType 3 (object_binding ''var'' []) (Some object_binding_argument) = Some (Inr True)"
    by (simp add: examples numeral_3_eq_3)
  have "isReferenceType fuel (object_binding ''var'' []) (Some object_binding_argument) \<noteq> Some (Inr False)" for fuel
  proof
    assume f: "isReferenceType fuel (object_binding ''var'' []) (Some object_binding_argument) = Some (Inr False)"
    have "isReferenceType (max fuel 3) (object_binding ''var'' []) (Some object_binding_argument) = Some (Inr False)"
      by (rule isReferenceType_more_fuel [OF f]) simp
    moreover have "isReferenceType (max fuel 3) (object_binding ''var'' []) (Some object_binding_argument) = Some (Inr True)"
      by (rule isReferenceType_more_fuel [OF t]) simp
    ultimately show False by simp
  qed
  with t show ?thesis by blast
qed

text \<open>
  C4, as amended: for an identifier whose own scope (the scope returned for the
  identifier) has, in its list of variables, a variable of that name whose first
  definition is a \<^verbatim>\<open>const\<close> declarator with an initializer, the boolean is that of the
  initializer (which is classified two frames deeper), and the label of a flagged
  identifier is \<^verbatim>\<open>variable (name)\<close>, never the label of the initializer.
\<close>

theorem const_binding_verdict:
  assumes "find (\<lambda>v. name v = nm) (variables (getScope (sourceCode ctx) (Node r (Identifier nm)))) = Some v"
    and "defs v = d # ds"
    and "node d = Some (Node r' (VariableDeclarator ''const'' (Some init)))"
  shows "isReferenceType (Suc (Suc k)) ctx (Some (Node r (Identifier nm))) =
           isReferenceType k ctx (Some init) \<and>
         classify (Suc (Suc k)) ctx (Some (Node r (Identifier nm))) =
           (case isReferenceType k ctx (Some init) of
              None \<Rightarrow> None
            | Some (Inl e) \<Rightarrow> Some (Inl e)
            | Some (Inr b) \<Rightarrow>
                Some (Inr \<lparr>referenceType = b,
                           typeLabel = (if b then Some (''variable ('' @ nm @ '')'') else None)\<rparr>))"
proof -
  have "isReferenceType (Suc (Suc k)) ctx (Some (Node r (Identifier nm))) = isReferenceType k ctx (Some init)"
    using assms by simp
  then show ?thesis
    by (simp del: isReferenceType.simps split: option.splits sum.splits bool.splits)
qed

text \<open>
  Witness of C4: \<^verbatim>\<open>const p = {}; new Array(3).fill(p);\<close> is a reference type with the
  label \<^verbatim>\<open>variable (p)\<close>.
\<close>

theorem const_binding_verdict_witness:
  "isReferenceType 3 (object_binding ''const'' []) (Some object_binding_argument) =
     isReferenceType 1 (object_binding ''const'' []) (Some (Node (10, 12) ObjectExpression)) \<and>
   classify 3 (object_binding ''const'' []) (Some object_binding_argument) =
     Some (Inr \<lparr>referenceType = True, typeLabel = Some ''variable (p)''\<rparr>)"
  using const_binding_verdict [of "''p''" "object_binding ''const'' []" "(32, 33)"
      "declared ''p'' (Node (6, 12) (VariableDeclarator ''const'' (Some (Node (10, 12) ObjectExpression))))"
      "\<lparr>node = Some (Node (6, 12) (VariableDeclarator ''const'' (Some (Node (10, 12) ObjectExpression))))\<rparr>"
      "[]" "(6, 12)" "Node (10, 12) ObjectExpression" 1]
  by (simp add: examples numeral_3_eq_3)

text \<open>
  Counterexample to C4 as stated: in \<^verbatim>\<open>const p = {}; new Array(3).fill(p);\<close> the
  identifier has the label \<^verbatim>\<open>variable (p)\<close>, its initializer the label \<^verbatim>\<open>Object\<close>.
\<close>

theorem const_object_label_counterexample:
  "classify 3 (object_binding ''const'' []) (Some object_binding_argument) =
     Some (Inr \<lparr>referenceType = True, typeLabel = Some ''variable (p)''\<rparr>) \<and>
   classify 3 (object_binding ''const'' []) (Some (Node (10, 12) ObjectExpression)) =
     Some (Inr \<lparr>referenceType = True, typeLabel = Some ''Object''\<rparr>)"
  by (simp add: examples numeral_3_eq_3)

subsection \<open>Calls of Symbol\<close>

text \<open>
  The test before the return looks at the number of variables of the scope, not at a
  variable named \<^verbatim>\<open>Symbol\<close>: a call whose callee is the identifier \<^verbatim>\<open>Symbol\<close> is a
  value type exactly when the scope of the call has no variable.
\<close>

lemma symbol_call_verdict:
  "isReferenceType (Suc k) ctx (Some (Node r (CallExpression (Node r' (Identifier ''Symbol'')) args))) =
     Some (Inr (variables (getScope (sourceCode ctx)
        (Node r (CallExpression (Node r' (Identifier ''Symbol'')) args))) \<noteq> []))"
  by (simp add: Let_def)

text \<open>
  C2: a call whose callee is the identifier \<^verbatim>\<open>Symbol\<close> is to be a value type, with
  variables in the scope of the call and without. In
  \<^verbatim>\<open>const foo = 1; new Array(3).fill(Symbol('foo'));\<close> the scope has the variable
  \<^verbatim>\<open>foo\<close>, and the call is flagged as a reference type, with no label; the same call
  in a scope without variables is a value type.
\<close>

theorem symbol_call_flagged:
  "isReferenceType 1 symbol_after_binding (Some symbol_call) = Some (Inr True) \<and>
   classify 1 symbol_after_binding (Some symbol_call) =
     Some (Inr \<lparr>referenceType = True, typeLabel = None\<rparr>) \<and>
   isReferenceType 1 (program [] []) (Some symbol_call) = Some (Inr False)"
  by (simp add: examples)

subsection \<open>Variables without definition\<close>

text \<open>
  The first definition of the variable is read without a test: a variable that is found
  and has no definition makes the classifier throw.
\<close>

lemma empty_defs_throw:
  assumes "find (\<lambda>v. name v = nm) (variables (getScope (sourceCode ctx) (Node r (Identifier nm)))) = Some v"
    and "defs v = []"
  shows "isReferenceType (Suc (Suc k)) ctx (Some (Node r (Identifier nm))) = Some (Inl TypeError)"
  using assms by simp

text \<open>
  An identifier whose variable is not in the list of its scope is a value type, and so is
  one whose first definition has no node.
\<close>

lemma unresolved_identifier_is_value_type:
  assumes "find (\<lambda>v. name v = nm) (variables (getScope (sourceCode ctx) (Node r (Identifier nm)))) = None"
  shows "isReferenceType (Suc (Suc k)) ctx (Some (Node r (Identifier nm))) = Some (Inr False)"
  using assms by simp

lemma definition_without_node_is_value_type:
  assumes "find (\<lambda>v. name v = nm) (variables (getScope (sourceCode ctx) (Node r (Identifier nm)))) = Some v"
    and "defs v = d # ds"
    and "node d = None"
  shows "isReferenceType (Suc (Suc k)) ctx (Some (Node r (Identifier nm))) = Some (Inr False)"
  using assms by simp

text \<open>
  C3: the classifier is to return a verdict on every tree, also for an identifier whose
  variable has an empty list of definitions. In
  \<^verbatim>\<open>function f() { return new Array(3).fill(arguments); }\<close> the variable \<^verbatim>\<open>arguments\<close> of
  the function scope has none, and the classifier throws a \<^verbatim>\<open>TypeError\<close>.
\<close>

theorem implicit_arguments_throws:
  "isReferenceType 2 (implicit_arguments []) (Some arguments_argument) = Some (Inl TypeError) \<and>
   classify 2 (implicit_arguments []) (Some arguments_argument) = Some (Inl TypeError)"
  by (simp add: examples numeral_2_eq_2)

text \<open>
  C10: an identifier whose variable is found and whose first definition is absent is to
  be a value type, as an identifier that is not found. In
  \<^verbatim>\<open>function f(x) { return new Array(3).fill(arguments); }\<close> the variable is found in the
  scope of the function, its first definition is absent, and the classifier throws,
  while an identifier that the scope does not have is a value type.
\<close>

theorem absent_first_definition_throws:
  "find (\<lambda>v. name v = ''arguments'')
     (variables (getScope (sourceCode function_with_parameter) arguments_in_function)) =
     Some \<lparr>name = ''arguments'', defs = []\<rparr> \<and>
   isReferenceType 2 function_with_parameter (Some arguments_in_function) = Some (Inl TypeError) \<and>
   isReferenceType 2 function_with_parameter (Some (Node (41, 42) (Identifier ''y''))) = Some (Inr False)"
  by (simp add: examples numeral_2_eq_2)

subsection \<open>Termination\<close>

text \<open>
  The binding \<^verbatim>\<open>const a = a\<close> sends the classifier from the identifier to the identifier
  again, with one frame less each time.
\<close>

lemma self_binding_never_returns:
  "isReferenceType fuel self_binding (Some (Node rg (Identifier ''a''))) = None \<and>
   isIdentifierReferenceType fuel self_binding (Node rg (Identifier ''a'')) = None"
proof (induction fuel arbitrary: rg)
  case 0
  show ?case by simp
next
  case (Suc fuel)
  have "isIdentifierReferenceType (Suc fuel) self_binding (Node rg (Identifier ''a'')) =
        isReferenceType fuel self_binding (Some (Node (10, 11) (Identifier ''a'')))"
    by (simp add: examples del: isReferenceType.simps)
  with Suc show ?case by (simp del: isIdentifierReferenceType.simps)
qed

text \<open>
  Counterexample to C5 as stated: on \<^verbatim>\<open>const a = a; new Array(3).fill(a);\<close> the
  classifier returns with no number of frames.
\<close>

theorem self_binding_counterexample:
  "\<not> (\<exists>fuel res. isReferenceType fuel self_binding (Some self_binding_argument) = Some res)"
  by (simp add: self_binding_argument_def self_binding_never_returns)

text \<open>
  C5, as amended: when the chain of identifier indirections that starts at the node is
  finite, of depth \<open>d\<close>, the classifier returns, and \<open>2 * d + 2\<close> frames are enough: the
  result is the same with any larger number of frames.
\<close>

theorem classification_returns:
  "resolves ctx nd d t \<Longrightarrow>
   \<exists>res. \<forall>fuel. 2 * d + 2 \<le> fuel \<longrightarrow> isReferenceType fuel ctx nd = Some res"
proof (induction rule: resolves.induct)
  case (stop ctx nd)
  then obtain res where r: "\<And>k. isReferenceType (Suc (Suc k)) ctx nd = Some res"
    using isReferenceType_stop by blast
  have "isReferenceType fuel ctx nd = Some res" if "2 \<le> fuel" for fuel
  proof -
    from that have "fuel = Suc (Suc (fuel - 2))" by simp
    with r [of "fuel - 2"] show ?thesis by simp
  qed
  then show ?case by auto
next
  case (follow ctx nd nd' d t)
  then obtain res where r: "\<And>fuel. 2 * d + 2 \<le> fuel \<Longrightarrow> isReferenceType fuel ctx nd' = Some res"
    by blast
  have "isReferenceType fuel ctx nd = Some res" if "2 * Suc d + 2 \<le> fuel" for fuel
  proof -
    from that have k: "fuel = Suc (Suc (fuel - 2))" "2 * d + 2 \<le> fuel - 2"
      by simp_all
    have "isReferenceType (Suc (Suc (fuel - 2))) ctx nd = isReferenceType (fuel - 2) ctx nd'"
      using follow.hyps(1) by (rule isReferenceType_follow)
    with r [OF k(2)] k(1) show ?thesis by simp
  qed
  then show ?case by blast
qed

text \<open>
  Witness of C5: \<^verbatim>\<open>const b = {}; const a = b; new Array(3).fill(a);\<close> has depth 2.
\<close>

theorem classification_returns_witness:
  "resolves (binding_chain []) (Some binding_chain_argument) 2 (Some (Node (10, 12) ObjectExpression)) \<and>
   (\<exists>res. \<forall>fuel. 6 \<le> fuel \<longrightarrow>
      isReferenceType fuel (binding_chain []) (Some binding_chain_argument) = Some res)"
  using classification_returns [OF binding_chain_resolves [of "[]"]] binding_chain_resolves [of "[]"]
  by simp

subsection \<open>The options\<close>

lemma isReferenceType_stop_options:
  assumes "target c1 nd = None" and "sourceCode c1 = sourceCode c2" and "\<not> governed nd"
  shows "isReferenceType fuel c1 nd = isReferenceType fuel c2 nd"
proof (cases fuel)
  case 0
  then show ?thesis by simp
next
  case (Suc k)
  show ?thesis
  proof (cases nd)
    case None
    with Suc show ?thesis by simp
  next
    case (Some n)
    obtain rg s where n: "n = Node rg s" by (cases n)
    show ?thesis
    proof (cases "\<exists>nm. s = Identifier nm")
      case True
      then obtain nm where s: "s = Identifier nm" by blast
      show ?thesis
      proof (cases k)
        case 0
        with Suc Some n s show ?thesis by simp
      next
        case (Suc j)
        from assms(1) assms(2) have t2: "target c2 nd = None"
          using target_sourceCode by metis
        from assms(1) Some n s assms(2)
        have "isIdentifierReferenceType (Suc j) c1 n = isIdentifierReferenceType (Suc j) c2 n"
          by (auto split: option.splits list.splits shape.splits if_splits)
        with \<open>fuel = Suc k\<close> Suc Some n s show ?thesis
          by (simp del: isIdentifierReferenceType.simps)
      qed
    next
      case False
      with assms(2,3) Suc Some n show ?thesis
        by (cases s) (auto simp add: Let_def)
    qed
  qed
qed

lemma isReferenceType_options:
  "resolves c1 nd d t \<Longrightarrow> sourceCode c1 = sourceCode c2 \<Longrightarrow> \<not> governed t \<Longrightarrow>
   isReferenceType fuel c1 nd = isReferenceType fuel c2 nd"
proof (induction arbitrary: fuel rule: resolves.induct)
  case (stop ctx nd)
  then show ?case by (rule isReferenceType_stop_options)
next
  case (follow ctx nd nd' d t)
  from follow.hyps(1) follow.prems(1) have t2: "target c2 nd = Some nd'"
    using target_sourceCode by metis
  consider "fuel = 0" | "fuel = Suc 0" | k where "fuel = Suc (Suc k)"
    by (metis not0_implies_Suc)
  then show ?case
  proof cases
    case 1
    then show ?thesis by simp
  next
    case 2
    with follow.hyps(1) t2 show ?thesis
      by (simp only: isReferenceType_one_frame)
  next
    case 3
    have "isReferenceType k ctx nd' = isReferenceType k c2 nd'"
      using follow.prems by (rule follow.IH)
    with 3 follow.hyps(1) t2 show ?thesis
      by (simp only: isReferenceType_follow)
  qed
qed

text \<open>
  C6, as amended: when the identifier indirection from the node ends at a shape that is
  neither a regex literal, nor a construction of \<^verbatim>\<open>RegExp\<close>, nor a function (literal,
  arrow or declaration), two contexts that differ in their options only give the same
  verdict. A node that is no identifier is its own end.
\<close>

theorem verdict_independent_of_options:
  assumes "sourceCode c1 = sourceCode c2" and "resolves c1 nd d t" and "\<not> governed t"
  shows "classify fuel c1 nd = classify fuel c2 nd"
proof -
  have "isReferenceType fuel c1 nd = isReferenceType fuel c2 nd"
    using assms(2) assms(1) assms(3) by (rule isReferenceType_options)
  moreover have "getType c1 n = getType c2 n" for n
    using assms(1) by (rule getType_sourceCode)
  ultimately show ?thesis
    by (simp del: isReferenceType.simps getType.simps split: option.splits sum.splits bool.splits)
qed

text \<open>
  Witness of C6: \<^verbatim>\<open>const b = {}; const a = b; new Array(3).fill(a);\<close> with both options
  false and with the defaults.
\<close>

theorem verdict_independent_of_options_witness:
  "sourceCode (binding_chain [\<lparr>canFillWithFunction = Some False, canFillWithRegexp = Some False\<rparr>]) =
     sourceCode (binding_chain []) \<and>
   resolves (binding_chain [\<lparr>canFillWithFunction = Some False, canFillWithRegexp = Some False\<rparr>])
     (Some binding_chain_argument) 2 (Some (Node (10, 12) ObjectExpression)) \<and>
   \<not> governed (Some (Node (10, 12) ObjectExpression)) \<and>
   classify 6 (binding_chain [\<lparr>canFillWithFunction = Some False, canFillWithRegexp = Some False\<rparr>])
       (Some binding_chain_argument) =
     classify 6 (binding_chain []) (Some binding_chain_argument)"
proof -
  have s: "sourceCode (binding_chain [\<lparr>canFillWithFunction = Some False, canFillWithRegexp = Some False\<rparr>]) =
     sourceCode (binding_chain [])"
    by (simp add: examples)
  have g: "\<not> governed (Some (Node (10, 12) ObjectExpression))"
    by simp
  from verdict_independent_of_options [OF s binding_chain_resolves g, of 6] s binding_chain_resolves g
  show ?thesis by blast
qed

text \<open>
  Counterexample to C6 as stated: the identifier of
  \<^verbatim>\<open>const p = /pattern/; new Array(3).fill(p);\<close> is none of the governed shapes, and it
  is a value type by default and a reference type when \<^verbatim>\<open>canFillWithRegexp\<close> is false.
\<close>

theorem regex_binding_counterexample:
  "\<not> governed (Some regex_binding_argument) \<and>
   classify 3 (regex_binding []) (Some regex_binding_argument) =
     Some (Inr \<lparr>referenceType = False, typeLabel = None\<rparr>) \<and>
   classify 3 (regex_binding [\<lparr>canFillWithFunction = None, canFillWithRegexp = Some False\<rparr>])
       (Some regex_binding_argument) =
     Some (Inr \<lparr>referenceType = True, typeLabel = Some ''variable (p)''\<rparr>)"
  by (simp add: examples numeral_3_eq_3 DEFAULTS_def)

text \<open>
  C7: a regex literal and a construction whose callee is the identifier \<^verbatim>\<open>RegExp\<close> are
  a value type when \<^verbatim>\<open>canFillWithRegexp\<close> is true and a reference type when it is false,
  and the two forms agree. The option is read from the first object of
  \<^verbatim>\<open>context.options\<close>; it is true when there is no such object or the object has not
  the key.
\<close>

theorem regex_verdict:
  "isReferenceType (Suc k) ctx (Some (Node r (Literal (Some rx)))) =
     Some (Inr (case options ctx of [] \<Rightarrow> False | opt # rest \<Rightarrow> canFillWithRegexp opt = Some False)) \<and>
   isReferenceType (Suc k) ctx (Some (Node r' (NewExpression (Node r'' (Identifier ''RegExp'')) args))) =
     Some (Inr (case options ctx of [] \<Rightarrow> False | opt # rest \<Rightarrow> canFillWithRegexp opt = Some False)) \<and>
   isReferenceType (Suc k) \<lparr>options = [], sourceCode = sc\<rparr> (Some (Node r (Literal (Some rx)))) =
     Some (Inr False) \<and>
   isReferenceType (Suc k)
       \<lparr>options = \<lparr>canFillWithFunction = f, canFillWithRegexp = None\<rparr> # os, sourceCode = sc\<rparr>
       (Some (Node r (Literal (Some rx)))) =
     Some (Inr False) \<and>
   isReferenceType (Suc k)
       \<lparr>options = \<lparr>canFillWithFunction = f, canFillWithRegexp = Some b\<rparr> # os, sourceCode = sc\<rparr>
       (Some (Node r (Literal (Some rx)))) =
     Some (Inr (\<not> b)) \<and>
   isReferenceType (Suc k) \<lparr>options = [], sourceCode = sc\<rparr>
       (Some (Node r' (NewExpression (Node r'' (Identifier ''RegExp'')) args))) =
     Some (Inr False) \<and>
   isReferenceType (Suc k)
       \<lparr>options = \<lparr>canFillWithFunction = f, canFillWithRegexp = None\<rparr> # os, sourceCode = sc\<rparr>
       (Some (Node r' (NewExpression (Node r'' (Identifier ''RegExp'')) args))) =
     Some (Inr False) \<and>
   isReferenceType (Suc k)
       \<lparr>options = \<lparr>canFillWithFunction = f, canFillWithRegexp = Some b\<rparr> # os, sourceCode = sc\<rparr>
       (Some (Node r' (NewExpression (Node r'' (Identifier ''RegExp'')) args))) =
     Some (Inr (\<not> b))"
proof -
  have a: "truthy (canFillWithRegexp (spread DEFAULTS (options0 ctx))) =
           (\<not> (case options ctx of [] \<Rightarrow> False | opt # rest \<Rightarrow> canFillWithRegexp opt = Some False))" for ctx
  proof (cases "options ctx")
    case Nil
    then show ?thesis by (simp add: DEFAULTS_def)
  next
    case (Cons opt rest)
    then show ?thesis by (cases "canFillWithRegexp opt") (auto simp add: DEFAULTS_def)
  qed
  have l: "isReferenceType (Suc k) ctx (Some (Node r (Literal (Some rx)))) =
     Some (Inr (case options ctx of [] \<Rightarrow> False | opt # rest \<Rightarrow> canFillWithRegexp opt = Some False))" for ctx
    using a [of ctx] by (simp add: Let_def del: spread.simps options0.simps)
  have n: "isReferenceType (Suc k) ctx (Some (Node r' (NewExpression (Node r'' (Identifier ''RegExp'')) args))) =
     Some (Inr (case options ctx of [] \<Rightarrow> False | opt # rest \<Rightarrow> canFillWithRegexp opt = Some False))" for ctx
    using a [of ctx] by (simp add: Let_def del: spread.simps options0.simps)
  show ?thesis
    by (simp only: l n) simp
qed

text \<open>
  C8: a function expression and an arrow function expression are a value type when
  \<^verbatim>\<open>canFillWithFunction\<close> is true and a reference type when it is false. The option is
  read from the first object of \<^verbatim>\<open>context.options\<close>; it is true when there is no such
  object or the object has not the key.
\<close>

theorem function_verdict:
  "isReferenceType (Suc k) ctx (Some (Node r FunctionExpression)) =
     Some (Inr (case options ctx of [] \<Rightarrow> False | opt # rest \<Rightarrow> canFillWithFunction opt = Some False)) \<and>
   isReferenceType (Suc k) ctx (Some (Node r' ArrowFunctionExpression)) =
     Some (Inr (case options ctx of [] \<Rightarrow> False | opt # rest \<Rightarrow> canFillWithFunction opt = Some False)) \<and>
   isReferenceType (Suc k) \<lparr>options = [], sourceCode = sc\<rparr> (Some (Node r FunctionExpression)) =
     Some (Inr False) \<and>
   isReferenceType (Suc k)
       \<lparr>options = \<lparr>canFillWithFunction = None, canFillWithRegexp = g\<rparr> # os, sourceCode = sc\<rparr>
       (Some (Node r FunctionExpression)) =
     Some (Inr False) \<and>
   isReferenceType (Suc k)
       \<lparr>options = \<lparr>canFillWithFunction = Some b, canFillWithRegexp = g\<rparr> # os, sourceCode = sc\<rparr>
       (Some (Node r FunctionExpression)) =
     Some (Inr (\<not> b)) \<and>
   isReferenceType (Suc k) \<lparr>options = [], sourceCode = sc\<rparr> (Some (Node r' ArrowFunctionExpression)) =
     Some (Inr False) \<and>
   isReferenceType (Suc k)
       \<lparr>options = \<lparr>canFillWithFunction = None, canFillWithRegexp = g\<rparr> # os, sourceCode = sc\<rparr>
       (Some (Node r' ArrowFunctionExpression)) =
     Some (Inr False) \<and>
   isReferenceType (Suc k)
       \<lparr>options = \<lparr>canFillWithFunction = Some b, canFillWithRegexp = g\<rparr> # os, sourceCode = sc\<rparr>
       (Some (Node r' ArrowFunctionExpression)) =
     Some (Inr (\<not> b))"
proof -
  have a: "truthy (canFillWithFunction (spread DEFAULTS (options0 ctx))) =
           (\<not> (case options ctx of [] \<Rightarrow> False | opt # rest \<Rightarrow> canFillWithFunction opt = Some False))" for ctx
  proof (cases "options ctx")
    case Nil
    then show ?thesis by (simp add: DEFAULTS_def)
  next
    case (Cons opt rest)
    then show ?thesis by (cases "canFillWithFunction opt") (auto simp add: DEFAULTS_def)
  qed
  have l: "isReferenceType (Suc k) ctx (Some (Node r FunctionExpression)) =
     Some (Inr (case options ctx of [] \<Rightarrow> False | opt # rest \<Rightarrow> canFillWithFunction opt = Some False))" for ctx
    using a [of ctx] by (simp add: Let_def del: spread.simps options0.simps)
  have n: "isReferenceType (Suc k) ctx (Some (Node r' ArrowFunctionExpression)) =
     Some (Inr (case options ctx of [] \<Rightarrow> False | opt # rest \<Rightarrow> canFillWithFunction opt = Some False))" for ctx
    using a [of ctx] by (simp add: Let_def del: spread.simps options0.simps)
  show ?thesis
    by (simp only: l n) simp
qed

subsection \<open>Primitives\<close>

text \<open>
  An absent node, a literal that is not a regex and a template literal, whatever its
  expressions are, are a value type under every configuration, with no label.
\<close>

lemma primitives_are_value_type:
  "isReferenceType (Suc k) ctx None = Some (Inr False) \<and>
   isReferenceType (Suc k) ctx (Some (Node r (Literal None))) = Some (Inr False) \<and>
   isReferenceType (Suc k) ctx (Some (Node r' (TemplateLiteral es))) = Some (Inr False) \<and>
   classify (Suc k) ctx None = Some (Inr \<lparr>referenceType = False, typeLabel = None\<rparr>) \<and>
   classify (Suc k) ctx (Some (Node r (Literal None))) =
     Some (Inr \<lparr>referenceType = False, typeLabel = None\<rparr>) \<and>
   classify (Suc k) ctx (Some (Node r' (TemplateLiteral es))) =
     Some (Inr \<lparr>referenceType = False, typeLabel = None\<rparr>)"
  by simp

text \<open>
  C9: the primitives, \<^verbatim>\<open>undefined\<close> among them, are to be a value type under every
  configuration. \<^verbatim>\<open>undefined\<close> is an identifier and goes through the lookup of the
  variable: in the script \<^verbatim>\<open>new Array(3).fill(undefined);\<close> the global scope has the
  variable \<^verbatim>\<open>undefined\<close> without definition, and the classifier throws; in a scope that
  has not the variable the identifier is a value type.
\<close>

theorem undefined_in_script_throws:
  "isReferenceType 2 script_globals (Some undefined_argument) = Some (Inl TypeError) \<and>
   classify 2 script_globals (Some undefined_argument) = Some (Inl TypeError) \<and>
   isReferenceType 2 (program [] []) (Some undefined_argument) = Some (Inr False)"
  by (simp add: examples script_globals_def undefined_argument_def numeral_2_eq_2)

end
